theory Spec2Isabelle
  imports Complex_Main "HOL-Library.Sublist"
begin

section \<open>Agentic tool-use loops: a shallow embedding\<close>

text \<open>
  The development follows the Python sources: \<^verbatim>\<open>utils.py\<close>, \<^verbatim>\<open>tools.py\<close>,
  \<^verbatim>\<open>component_level_eval.py\<close>, \<^verbatim>\<open>multi_agentic/tools.py\<close> and
  \<^verbatim>\<open>multi_agentic/campaign_pipeline.py\<close>.

  A Python \<^verbatim>\<open>str\<close> is modelled as a \<^typ>\<open>string\<close>: one \<^typ>\<open>char\<close> per code point, for
  code points below 256. Python's unbounded \<^verbatim>\<open>int\<close> is \<^typ>\<open>int\<close>.
\<close>

subsection \<open>\<^verbatim>\<open>utils.py\<close>: \<^verbatim>\<open>truncate_text\<close>\<close>

text \<open>
  The slice \<^verbatim>\<open>text[:n]\<close>: the first \<open>n\<close> characters when \<open>n\<close> is not negative; for a
  negative \<open>n\<close> Python counts from the end, so the slice drops the last \<open>-n\<close> characters
  (and is empty when there are fewer).
\<close>

definition slice_to :: "'a list \<Rightarrow> int \<Rightarrow> 'a list" where
  "slice_to xs n = (if 0 \<le> n then take (nat n) xs else take (nat (int (length xs) + n)) xs)"

text \<open>
  \<^verbatim>\<open>
  def truncate_text(text: str, max_length: int = 500) -> str:
      if len(text) <= max_length:
          return text
      return text[:max_length] + "..."
  \<close>
\<close>

definition truncate_text :: "string \<Rightarrow> int \<Rightarrow> string" where
  "truncate_text text max_length =
     (if int (length text) \<le> max_length then text
      else slice_to text max_length @ ''...'')"

subsection \<open>Python values, exceptions and effects\<close>

text \<open>
  The values that cross the tool boundary are JSON-shaped: the \<^verbatim>\<open>input\<close> of a tool request
  is a \<^verbatim>\<open>dict\<close> decoded from JSON, and tools return strings, lists and dicts. A float is
  carried by its \<^verbatim>\<open>repr\<close>; no property below computes with one. A \<^verbatim>\<open>dict\<close> is an association
  list read with \<^const>\<open>map_of\<close>.
\<close>

datatype pyval =
    PNone
  | PBool bool
  | PInt int
  | PFloat string
  | PStr string
  | PList "pyval list"
  | PDict "(string \<times> pyval) list"

type_synonym pydict = "(string \<times> pyval) list"


text \<open>\<^verbatim>\<open>type(v).__name__\<close>\<close>

fun type_name :: "pyval \<Rightarrow> string" where
  "type_name PNone = ''NoneType''"
| "type_name (PBool b) = ''bool''"
| "type_name (PInt i) = ''int''"
| "type_name (PFloat f) = ''float''"
| "type_name (PStr s) = ''str''"
| "type_name (PList xs) = ''list''"
| "type_name (PDict d) = ''dict''"

text \<open>
  An exception object: its class name and its \<^verbatim>\<open>str(e)\<close>. Only subclasses of
  \<^verbatim>\<open>Exception\<close> are modelled (what \<^verbatim>\<open>except Exception\<close> catches).
\<close>

datatype exn = Exn (exn_class: string) (exn_str: string)

text \<open>
  \<^verbatim>\<open>d[k]\<close> on a missing key raises \<^verbatim>\<open>KeyError(k)\<close>, whose \<^verbatim>\<open>str\<close> is \<^verbatim>\<open>repr(k)\<close>: the key
  in single quotes, for a key without quotes, backslashes or control characters.
\<close>

definition key_error :: "string \<Rightarrow> exn" where
  "key_error k = Exn ''KeyError'' ([CHR 0x27] @ k @ [CHR 0x27])"

definition subscript :: "pydict \<Rightarrow> string \<Rightarrow> exn + pyval" where
  "subscript d k = (case map_of d k of None \<Rightarrow> Inl (key_error k) | Some v \<Rightarrow> Inr v)"

text \<open>
  A call with effects takes the state of the world (clock, network, file system, the
  model endpoint's own state) and returns it updated, with either the exception raised
  or the value returned.
\<close>

type_synonym ('a, 'w) eff = "'w \<Rightarrow> (exn + 'a) \<times> 'w"

subsection \<open>Responses and messages of the model endpoint\<close>

text \<open>
  A content block of a response. \<^verbatim>\<open>block.type == "tool_use"\<close> holds of a
  \<open>ToolUseBlock\<close> (with \<^verbatim>\<open>id\<close>, \<^verbatim>\<open>name\<close>, \<^verbatim>\<open>input\<close>); \<^verbatim>\<open>hasattr(block, "text")\<close> holds of a
  \<open>TextBlock\<close>; \<open>OtherBlock\<close> is any other block (it has neither).
\<close>

datatype block =
    TextBlock string
  | ToolUseBlock (tu_id: string) (tu_name: string) (tu_input: pydict)
  | OtherBlock

fun is_tool_use :: "block \<Rightarrow> bool" where
  "is_tool_use (ToolUseBlock i n inp) = True"
| "is_tool_use b = False"

record response =
  stop_reason :: string
  content :: "block list"

text \<open>
  A message is the dict \<^verbatim>\<open>{"role": ..., "content": ...}\<close>; its content is a string (the
  prompt), the block list of a response, or a list of \<^verbatim>\<open>tool_result\<close> dicts.
\<close>

datatype msg_content =
    Text string
  | Blocks "block list"
  | Results "pydict list"

datatype message = Message (role: string) (msg_content: msg_content)

text \<open>
  \<^verbatim>\<open>{"type": "tool_result", "tool_use_id": ..., "content": ...}\<close>, as all three loops
  build it.
\<close>

definition tool_result :: "string \<Rightarrow> string \<Rightarrow> pydict" where
  "tool_result tool_use_id c =
     [(''type'', PStr ''tool_result''), (''tool_use_id'', PStr tool_use_id), (''content'', PStr c)]"

text \<open>
  \<^verbatim>\<open>
  final_text = ""
  for block in response.content:
      if hasattr(block, "text"):
          final_text += block.text
  \<close>
\<close>

fun final_text :: "block list \<Rightarrow> string" where
  "final_text [] = []"
| "final_text (TextBlock t # bs) = t @ final_text bs"
| "final_text (b # bs) = final_text bs"

text \<open>
  What a loop did: the value it returned or the exception that left it, the number of
  calls it made to the model endpoint (a ghost counter), and the world afterwards.
\<close>

datatype 'a outcome = Returned 'a | Raised exn

type_synonym ('a, 'w) run = "'a outcome \<times> nat \<times> 'w"

subsection \<open>\<^verbatim>\<open>tools.py\<close>: \<^verbatim>\<open>execute_tool\<close> and \<^verbatim>\<open>call_claude_with_tools\<close>\<close>

text \<open>
  The four tool bodies act on the world (clock, network, files); each returns a string
  by its source (\<^verbatim>\<open>strftime\<close> or an f-string) or raises.
\<close>

record 'w tool_impls =
  get_current_time :: "(string, 'w) eff"
  get_weather_from_ip :: "(string, 'w) eff"
  write_txt_file :: "pyval \<Rightarrow> pyval \<Rightarrow> (string, 'w) eff"
  generate_qr_code :: "pyval \<Rightarrow> pyval \<Rightarrow> pyval \<Rightarrow> (string, 'w) eff"

text \<open>
  \<^verbatim>\<open>
  def execute_tool(tool_name, tool_input):
      if tool_name == "get_current_time":
          return get_current_time()
      elif tool_name == "get_weather_from_ip":
          return get_weather_from_ip()
      elif tool_name == "write_txt_file":
          return write_txt_file(tool_input["filename"], tool_input["content"])
      elif tool_name == "generate_qr_code":
          return generate_qr_code(
              tool_input["data"], tool_input["filename"], tool_input["image_path"])
      else:
          return f"Unknown tool: {tool_name}"
  \<close>
  There is no \<^verbatim>\<open>try\<close>: a missing key and a failing tool body raise to the caller.
\<close>

definition execute_tool :: "'w tool_impls \<Rightarrow> string \<Rightarrow> pydict \<Rightarrow> (string, 'w) eff" where
  "execute_tool impls tool_name tool_input w =
     (if tool_name = ''get_current_time'' then get_current_time impls w
      else if tool_name = ''get_weather_from_ip'' then get_weather_from_ip impls w
      else if tool_name = ''write_txt_file'' then
        (case subscript tool_input ''filename'' of
           Inl e \<Rightarrow> (Inl e, w)
         | Inr filename \<Rightarrow>
             (case subscript tool_input ''content'' of
                Inl e \<Rightarrow> (Inl e, w)
              | Inr c \<Rightarrow> write_txt_file impls filename c w))
      else if tool_name = ''generate_qr_code'' then
        (case subscript tool_input ''data'' of
           Inl e \<Rightarrow> (Inl e, w)
         | Inr d \<Rightarrow>
             (case subscript tool_input ''filename'' of
                Inl e \<Rightarrow> (Inl e, w)
              | Inr filename \<Rightarrow>
                  (case subscript tool_input ''image_path'' of
                     Inl e \<Rightarrow> (Inl e, w)
                   | Inr image_path \<Rightarrow> generate_qr_code impls d filename image_path w)))
      else (Inr (''Unknown tool: '' @ tool_name), w))"

text \<open>
  The endpoint call \<^verbatim>\<open>client.messages.create(model=..., max_tokens=4096, tools=...,
  messages=...)\<close>: it is given the tool schemas and the conversation, acts on the world, and
  returns a response or raises.
\<close>

type_synonym ('t, 'w) endpoint = "'t \<Rightarrow> message list \<Rightarrow> (response, 'w) eff"

text \<open>
  \<^verbatim>\<open>
  while iteration < max_iterations:
      iteration += 1
      response = client.messages.create(...)
      if response.stop_reason == "tool_use":
          tool_use_block = None
          for block in response.content:
              if block.type == "tool_use":
                  tool_use_block = block
                  break
          if tool_use_block:
              tool_result = execute_tool(tool_use_block.name, tool_use_block.input)
              messages.append({"role": "assistant", "content": response.content})
              messages.append({"role": "user", "content": [
                  {"type": "tool_result", "tool_use_id": tool_use_block.id,
                   "content": str(tool_result)}]})
      else:
          final_text = ...
          return final_text, messages
  return "Max iterations reached", messages
  \<close>
  The loop, from the state (\<open>iteration\<close>, \<open>messages\<close>) it is entered with; \<open>calls\<close> counts
  the endpoint calls made so far. The \<^verbatim>\<open>print\<close> calls are left out. \<^verbatim>\<open>str\<close> of the tool
  result is the result itself, a string.
\<close>

function call_loop ::
  "('t, 'w) endpoint \<Rightarrow> 'w tool_impls \<Rightarrow> 't \<Rightarrow> int \<Rightarrow> int \<Rightarrow> message list \<Rightarrow> nat \<Rightarrow> 'w
   \<Rightarrow> (string \<times> message list, 'w) run" where
  "call_loop create impls tools_list max_iterations iteration messages calls w =
     (if iteration < max_iterations then
        (case create tools_list messages w of
           (Inl e, w1) \<Rightarrow> (Raised e, Suc calls, w1)
         | (Inr response, w1) \<Rightarrow>
             if stop_reason response = ''tool_use'' then
               (case find is_tool_use (content response) of
                  None \<Rightarrow>
                    call_loop create impls tools_list max_iterations (iteration + 1)
                      messages (Suc calls) w1
                | Some tool_use_block \<Rightarrow>
                    (case execute_tool impls (tu_name tool_use_block) (tu_input tool_use_block) w1 of
                       (Inl e, w2) \<Rightarrow> (Raised e, Suc calls, w2)
                     | (Inr tool_res, w2) \<Rightarrow>
                         call_loop create impls tools_list max_iterations (iteration + 1)
                           (messages @
                              [Message ''assistant'' (Blocks (content response)),
                               Message ''user''
                                 (Results [tool_result (tu_id tool_use_block) tool_res])])
                           (Suc calls) w2))
             else (Returned (final_text (content response), messages), Suc calls, w1))
      else (Returned (''Max iterations reached'', messages), calls, w))"
  by pat_completeness auto
termination
  by (relation "measure (\<lambda>(create, impls, tools_list, max_iterations, iteration, messages, calls, w).
        nat (max_iterations - iteration))") auto

declare call_loop.simps [simp del]

text \<open>
  \<^verbatim>\<open>call_claude_with_tools(prompt, tools_list, model, max_iterations)\<close>: the conversation is
  seeded with the prompt and the loop starts at iteration 0.
\<close>

definition call_claude_with_tools ::
  "('t, 'w) endpoint \<Rightarrow> 'w tool_impls \<Rightarrow> string \<Rightarrow> 't \<Rightarrow> int \<Rightarrow> 'w
   \<Rightarrow> (string \<times> message list, 'w) run" where
  "call_claude_with_tools create impls prompt tools_list max_iterations w =
     call_loop create impls tools_list max_iterations 0 [Message ''user'' (Text prompt)] 0 w"

subsection \<open>\<^verbatim>\<open>component_level_eval.py\<close>: \<^verbatim>\<open>process_tool_call\<close> and \<^verbatim>\<open>find_references\<close>\<close>

text \<open>
  The module \<^verbatim>\<open>research_tools\<close> is imported, not part of the sources: its three functions
  are parameters, called with the tool input as keyword arguments. So are \<^verbatim>\<open>json.dumps\<close>
  (it raises \<^verbatim>\<open>TypeError\<close> on a value that is not serialisable), the endpoint, the tool
  schemas \<^verbatim>\<open>RESEARCH_TOOLS\<close> sent to it, and today's date.
\<close>

record ('t, 'w) research =
  arxiv_search :: "pydict \<Rightarrow> (pyval, 'w) eff"
  tavily_search :: "pydict \<Rightarrow> (pyval, 'w) eff"
  wikipedia_search :: "pydict \<Rightarrow> (pyval, 'w) eff"
  json_dumps :: "pyval \<Rightarrow> exn + string"
  create :: "('t, 'w) endpoint"
  RESEARCH_TOOLS :: 't
  today :: string

text \<open>\<^verbatim>\<open>json.dumps(result) if not isinstance(result, str) else result\<close>\<close>

definition serialize :: "(pyval \<Rightarrow> exn + string) \<Rightarrow> pyval \<Rightarrow> exn + string" where
  "serialize dumps result = (case result of PStr s \<Rightarrow> Inr s | _ \<Rightarrow> dumps result)"

text \<open>
  \<^verbatim>\<open>
  def process_tool_call(tool_name: str, tool_input: dict):
      try:
          if tool_name == "arxiv_search":
              result = research_tools.arxiv_search(**tool_input)
          elif tool_name == "tavily_search":
              result = research_tools.tavily_search(**tool_input)
          elif tool_name == "wikipedia_search":
              result = research_tools.wikipedia_search(**tool_input)
          else:
              result = f"Unknown tool: {tool_name}"
          return json.dumps(result) if not isinstance(result, str) else result
      except Exception as e:
          return f"Tool error ({tool_name}): {str(e)}"
  \<close>
  The \<^verbatim>\<open>try\<close> covers the tool call and the serialisation; the function returns a string
  on every path.
\<close>

definition dispatch_research ::
  "('t, 'w) research \<Rightarrow> string \<Rightarrow> pydict \<Rightarrow> (pyval, 'w) eff" where
  "dispatch_research env tool_name tool_input w =
     (if tool_name = ''arxiv_search'' then arxiv_search env tool_input w
      else if tool_name = ''tavily_search'' then tavily_search env tool_input w
      else if tool_name = ''wikipedia_search'' then wikipedia_search env tool_input w
      else (Inr (PStr (''Unknown tool: '' @ tool_name)), w))"

definition tool_error :: "string \<Rightarrow> exn \<Rightarrow> string" where
  "tool_error tool_name e = ''Tool error ('' @ tool_name @ ''): '' @ exn_str e"

definition process_tool_call ::
  "('t, 'w) research \<Rightarrow> string \<Rightarrow> pydict \<Rightarrow> 'w \<Rightarrow> string \<times> 'w" where
  "process_tool_call env tool_name tool_input w =
     (case dispatch_research env tool_name tool_input w of
        (Inl e, w1) \<Rightarrow> (tool_error tool_name e, w1)
      | (Inr result, w1) \<Rightarrow>
          (case serialize (json_dumps env) result of
             Inl e \<Rightarrow> (tool_error tool_name e, w1)
           | Inr s \<Rightarrow> (s, w1)))"

text \<open>
  \<^verbatim>\<open>
  tool_results = []
  for block in response.content:
      if block.type == "tool_use":
          tool_result = process_tool_call(block.name, block.input)
          tool_results.append({"type": "tool_result", "tool_use_id": block.id,
                               "content": tool_result})
  \<close>
\<close>

fun research_tool_results ::
  "('t, 'w) research \<Rightarrow> block list \<Rightarrow> 'w \<Rightarrow> pydict list \<times> 'w" where
  "research_tool_results env [] w = ([], w)"
| "research_tool_results env (ToolUseBlock i n inp # bs) w =
     (case process_tool_call env n inp w of
        (s, w1) \<Rightarrow>
          (case research_tool_results env bs w1 of
             (rs, w2) \<Rightarrow> (tool_result i s # rs, w2)))"
| "research_tool_results env (b # bs) w = research_tool_results env bs w"

text \<open>
  \<^verbatim>\<open>
  max_iterations = 5
  iteration = 0
  while response.stop_reason == "tool_use" and iteration < max_iterations:
      iteration += 1
      messages.append({"role": "assistant", "content": response.content})
      tool_results = [...]
      messages.append({"role": "user", "content": tool_results})
      response = client.messages.create(...)
  \<close>
  The loop from the state (\<open>response\<close>, \<open>iteration\<close>, \<open>messages\<close>); it ends with the last
  response, or with the exception of an endpoint call.
\<close>

function references_loop ::
  "('t, 'w) research \<Rightarrow> response \<Rightarrow> int \<Rightarrow> message list \<Rightarrow> nat \<Rightarrow> 'w
   \<Rightarrow> (exn + response) \<times> message list \<times> nat \<times> 'w" where
  "references_loop env response iteration messages calls w =
     (if stop_reason response = ''tool_use'' \<and> iteration < 5 then
        (case research_tool_results env (content response) w of
           (tool_results, w1) \<Rightarrow>
             (let messages2 = messages @
                    [Message ''assistant'' (Blocks (content response)),
                     Message ''user'' (Results tool_results)]
              in case create env (RESEARCH_TOOLS env) messages2 w1 of
                   (Inl e, w2) \<Rightarrow> (Inl e, messages2, Suc calls, w2)
                 | (Inr response2, w2) \<Rightarrow>
                     references_loop env response2 (iteration + 1) messages2 (Suc calls) w2))
      else (Inr response, messages, calls, w))"
  by pat_completeness auto
termination
  by (relation "measure (\<lambda>(env, response, iteration, messages, calls, w). nat (5 - iteration))")
    auto

declare references_loop.simps [simp del]

text \<open>
  The prompt: the f-string of the source after \<^verbatim>\<open>.strip()\<close>, which removes the newline at
  each end.
\<close>

definition research_prompt :: "string \<Rightarrow> string \<Rightarrow> string" where
  "research_prompt task date =
     ''You are a research assistant with access to:'' @ [CHR 0x0A] @
     ''- arxiv_search: Search for academic papers'' @ [CHR 0x0A] @
     ''- tavily_search: Search the web for general information'' @ [CHR 0x0A] @
     ''- wikipedia_search: Search Wikipedia for summaries'' @ [CHR 0x0A] @
     [CHR 0x0A] @
     ''Task:'' @ [CHR 0x0A] @
     task @ [CHR 0x0A] @
     [CHR 0x0A] @
     ''Today is '' @ date @ ''.'' @ [CHR 0x0A] @
     [CHR 0x0A] @
     ''Please use the available tools to research this topic thoroughly and provide a comprehensive answer with URLs and citations.''"

text \<open>
  What \<^verbatim>\<open>find_references\<close> and \<^verbatim>\<open>market_research_agent\<close> return: the text alone, or the
  pair of the text and the messages when \<^verbatim>\<open>return_messages\<close> is set.
\<close>

datatype agent_result = Content string | ContentMessages string "message list"

definition with_messages :: "bool \<Rightarrow> string \<Rightarrow> message list \<Rightarrow> agent_result" where
  "with_messages return_messages c messages =
     (if return_messages then ContentMessages c messages else Content c)"

text \<open>
  \<^verbatim>\<open>
  messages = [{"role": "user", "content": prompt}]
  try:
      response = client.messages.create(...)
      <the loop>
      content = ""
      for block in response.content:
          if hasattr(block, "text"):
              content += block.text
      return (content, messages) if return_messages else content
  except Exception as e:
      return f"[Model Error: {str(e)}]"
  \<close>
  It returns its result, the number of endpoint calls and the world.
\<close>

definition find_references ::
  "('t, 'w) research \<Rightarrow> string \<Rightarrow> bool \<Rightarrow> 'w \<Rightarrow> agent_result \<times> nat \<times> 'w" where
  "find_references env task return_messages w =
     (let messages = [Message ''user'' (Text (research_prompt task (today env)))]
      in case create env (RESEARCH_TOOLS env) messages w of
           (Inl e, w1) \<Rightarrow> (Content (''[Model Error: '' @ exn_str e @ '']''), 1, w1)
         | (Inr response, w1) \<Rightarrow>
             (case references_loop env response 0 messages 1 w1 of
                (Inl e, messages2, calls, w2) \<Rightarrow>
                  (Content (''[Model Error: '' @ exn_str e @ '']''), calls, w2)
              | (Inr response2, messages2, calls, w2) \<Rightarrow>
                  (with_messages return_messages (final_text (content response2)) messages2,
                   calls, w2)))"

subsection \<open>\<^verbatim>\<open>multi_agentic/tools.py\<close>: the two dispatchers\<close>

text \<open>
  \<^verbatim>\<open>tavily_search_tool\<close> reads the environment and the network: it is a parameter, called
  with keyword arguments; it returns a list or raises (\<^verbatim>\<open>ValueError\<close> without an API key,
  \<^verbatim>\<open>TypeError\<close> on arguments it does not take). The table \<^verbatim>\<open>SUNGLASSES_CATALOG\<close> is a
  parameter too. \<^verbatim>\<open>json.loads\<close> and \<^verbatim>\<open>json.dumps\<close> are the library's.
\<close>

record ('t, 'w) campaign =
  tavily_search_tool :: "pydict \<Rightarrow> (pyval, 'w) eff"
  SUNGLASSES_CATALOG :: "pyval list"
  json_loads :: "string \<Rightarrow> exn + pyval"
  dumps :: "pyval \<Rightarrow> exn + string"
  messages_create :: "('t, 'w) endpoint"
  tools_claude :: 't

text \<open>
  The module defines \<^verbatim>\<open>product_catalog_tool\<close> twice; the second definition, without
  parameters, is the one bound to the name when either dispatcher runs:
  \<^verbatim>\<open>
  def product_catalog_tool() -> dict:
      return {"source": "Internal Product Catalog",
              "total_products": len(SUNGLASSES_CATALOG),
              "products": SUNGLASSES_CATALOG,
              "metadata": {"last_updated": "2025-01-15", "currency": "USD"}}
  \<close>
\<close>

definition product_catalog_tool :: "('t, 'w) campaign \<Rightarrow> pyval" where
  "product_catalog_tool env =
     PDict [(''source'', PStr ''Internal Product Catalog''),
            (''total_products'', PInt (int (length (SUNGLASSES_CATALOG env)))),
            (''products'', PList (SUNGLASSES_CATALOG env)),
            (''metadata'', PDict [(''last_updated'', PStr ''2025-01-15''),
                                 (''currency'', PStr ''USD'')])]"

text \<open>
  \<^verbatim>\<open>
  def handle_tool_call_claude(tool_name: str, tool_input: dict):
      if tool_name == "tavily_search_tool":
          return tavily_search_tool(**tool_input)
      elif tool_name == "product_catalog_tool":
          return product_catalog_tool()
      else:
          return {"error": f"Unknown tool: {tool_name}"}
  \<close>
\<close>

definition handle_tool_call_claude ::
  "('t, 'w) campaign \<Rightarrow> string \<Rightarrow> pydict \<Rightarrow> (pyval, 'w) eff" where
  "handle_tool_call_claude env tool_name tool_input w =
     (if tool_name = ''tavily_search_tool'' then tavily_search_tool env tool_input w
      else if tool_name = ''product_catalog_tool'' then (Inr (product_catalog_tool env), w)
      else (Inr (PDict [(''error'', PStr (''Unknown tool: '' @ tool_name))]), w))"

text \<open>
  The dispatcher for the other message format. A tool call carries
  \<^verbatim>\<open>tool_call.function.name\<close> and \<^verbatim>\<open>tool_call.function.arguments\<close>, a JSON text.
  \<^verbatim>\<open>
  def handle_tool_call(tool_call):
      function_name = tool_call.function.name
      arguments = json.loads(tool_call.function.arguments)
      tools_map = {"tavily_search_tool": tavily_search_tool,
                   "product_catalog_tool": product_catalog_tool}
      return tools_map[function_name](**arguments)
  \<close>
  The subscript \<^verbatim>\<open>tools_map[function_name]\<close> raises \<^verbatim>\<open>KeyError\<close> on a name that is not a
  key, and is evaluated before \<^verbatim>\<open>**arguments\<close>, which raises \<^verbatim>\<open>TypeError\<close> unless the
  arguments are a dict. \<^verbatim>\<open>product_catalog_tool\<close> takes no argument.
\<close>

record tool_call =
  function_name :: string
  function_arguments :: string

definition handle_tool_call :: "('t, 'w) campaign \<Rightarrow> tool_call \<Rightarrow> (pyval, 'w) eff" where
  "handle_tool_call env tc w =
     (case json_loads env (function_arguments tc) of
        Inl e \<Rightarrow> (Inl e, w)
      | Inr arguments \<Rightarrow>
          if function_name tc \<noteq> ''tavily_search_tool'' \<and>
             function_name tc \<noteq> ''product_catalog_tool''
          then (Inl (key_error (function_name tc)), w)
          else
            (case arguments of
               PDict kwargs \<Rightarrow>
                 if function_name tc = ''tavily_search_tool''
                 then tavily_search_tool env kwargs w
                 else if kwargs = [] then (Inr (product_catalog_tool env), w)
                 else (Inl (Exn ''TypeError''
                         (''product_catalog_tool() got an unexpected keyword argument '' @
                          [CHR 0x27] @ fst (hd kwargs) @ [CHR 0x27])), w)
             | _ \<Rightarrow>
                 (Inl (Exn ''TypeError''
                    (function_name tc @ ''() argument after ** must be a mapping, not '' @
                     type_name arguments)), w)))"

subsection \<open>\<^verbatim>\<open>multi_agentic/campaign_pipeline.py\<close>: \<^verbatim>\<open>market_research_agent\<close>\<close>

text \<open>
  \<^verbatim>\<open>
  tool_results = []
  for block in response.content:
      if block.type == "tool_use":
          result = tools.handle_tool_call_claude(block.name, block.input)
          tool_results.append({
              "type": "tool_result", "tool_use_id": block.id,
              "content": json.dumps(result) if not isinstance(result, str) else result})
  \<close>
  There is no \<^verbatim>\<open>try\<close>: an exception of a tool or of \<^verbatim>\<open>json.dumps\<close> ends the loop. The
  logging calls of \<^verbatim>\<open>utils\<close> are left out.
\<close>

fun campaign_tool_results ::
  "('t, 'w) campaign \<Rightarrow> block list \<Rightarrow> (pydict list, 'w) eff" where
  "campaign_tool_results env [] w = (Inr [], w)"
| "campaign_tool_results env (ToolUseBlock i n inp # bs) w =
     (case handle_tool_call_claude env n inp w of
        (Inl e, w1) \<Rightarrow> (Inl e, w1)
      | (Inr result, w1) \<Rightarrow>
          (case serialize (dumps env) result of
             Inl e \<Rightarrow> (Inl e, w1)
           | Inr s \<Rightarrow>
               (case campaign_tool_results env bs w1 of
                  (Inl e, w2) \<Rightarrow> (Inl e, w2)
                | (Inr rs, w2) \<Rightarrow> (Inr (tool_result i s # rs), w2))))"
| "campaign_tool_results env (b # bs) w = campaign_tool_results env bs w"

text \<open>The sign in the sentinel text is U+26A0 U+FE0F, written here in UTF-8.\<close>

definition warning_sign :: string where
  "warning_sign = [CHR 0xE2, CHR 0x9A, CHR 0xA0, CHR 0xEF, CHR 0xB8, CHR 0x8F]"

text \<open>
  \<^verbatim>\<open>
  max_iterations = 10
  iteration = 0
  while iteration < max_iterations:
      iteration += 1
      response = client.messages.create(...)
      if response.stop_reason == "tool_use":
          messages.append({"role": "assistant", "content": response.content})
          tool_results = [...]
          messages.append({"role": "user", "content": tool_results})
      else:
          final_content = ...
          return (final_content, messages) if return_messages else final_content
  return "[<sign> Max iterations reached]"
  \<close>
  The last line returns the text alone, whatever \<^verbatim>\<open>return_messages\<close> is.
\<close>

function market_loop ::
  "('t, 'w) campaign \<Rightarrow> bool \<Rightarrow> int \<Rightarrow> message list \<Rightarrow> nat \<Rightarrow> 'w \<Rightarrow> (agent_result, 'w) run" where
  "market_loop env return_messages iteration messages calls w =
     (if iteration < 10 then
        (case messages_create env (tools_claude env) messages w of
           (Inl e, w1) \<Rightarrow> (Raised e, Suc calls, w1)
         | (Inr response, w1) \<Rightarrow>
             if stop_reason response = ''tool_use'' then
               (case campaign_tool_results env (content response) w1 of
                  (Inl e, w2) \<Rightarrow> (Raised e, Suc calls, w2)
                | (Inr tool_results, w2) \<Rightarrow>
                    market_loop env return_messages (iteration + 1)
                      (messages @
                         [Message ''assistant'' (Blocks (content response)),
                          Message ''user'' (Results tool_results)])
                      (Suc calls) w2)
             else (Returned (with_messages return_messages (final_text (content response))
                               messages), Suc calls, w1))
      else (Returned (Content (''['' @ warning_sign @ '' Max iterations reached]'')), calls, w))"
  by pat_completeness auto
termination
  by (relation "measure (\<lambda>(env, return_messages, iteration, messages, calls, w).
        nat (10 - iteration))") auto

declare market_loop.simps [simp del]

text \<open>The prompt of the agent is a fixed text with today's date; it is a parameter here.\<close>

definition market_research_agent ::
  "('t, 'w) campaign \<Rightarrow> string \<Rightarrow> bool \<Rightarrow> 'w \<Rightarrow> (agent_result, 'w) run" where
  "market_research_agent env prompt return_messages w =
     market_loop env return_messages 0 [Message ''user'' (Text prompt)] 0 w"

subsection \<open>\<^verbatim>\<open>component_level_eval.py\<close>: \<^verbatim>\<open>evaluate_tavily_results\<close>\<close>














subsection \<open>What the properties speak of\<close>





text \<open>
  The identifiers of the tool requests of an assistant turn and of the results of a
  tool-result turn, and the turn ordering: every tool-result turn comes right after an
  assistant turn and answers its requests, one result each, in their order.
\<close>

definition request_ids :: "block list \<Rightarrow> pyval option list" where
  "request_ids bs = map (\<lambda>b. Some (PStr (tu_id b))) (filter is_tool_use bs)"

definition result_ids :: "pydict list \<Rightarrow> pyval option list" where
  "result_ids rs = map (\<lambda>d. map_of d ''tool_use_id'') rs"

fun turn_ordered :: "message list \<Rightarrow> bool" where
  "turn_ordered [] = True"
| "turn_ordered (Message r (Results rs) # ms) = False"
| "turn_ordered (Message r (Blocks bs) # Message r' (Results rs) # ms) =
     (r = ''assistant'' \<and> result_ids rs = request_ids bs \<and> turn_ordered ms)"
| "turn_ordered (m # ms) = turn_ordered ms"

subsection \<open>Endpoints and tools for the scenarios\<close>

text \<open>
  An endpoint that answers from a script: the world is the number of calls made so far.
  An endpoint that always gives the same response.
\<close>

definition scripted :: "response list \<Rightarrow> ('t, nat) endpoint" where
  "scripted rs tools_list messages w =
     (if w < length rs then (Inr (rs ! w), Suc w)
      else (Inl (Exn ''RuntimeError'' ''no response left''), Suc w))"

definition always :: "response \<Rightarrow> ('t, nat) endpoint" where
  "always r tools_list messages w = (Inr r, Suc w)"

definition fixed_tools :: "nat tool_impls" where
  "fixed_tools =
     \<lparr>get_current_time = (\<lambda>w. (Inr ''10:00:00'', w)),
      get_weather_from_ip = (\<lambda>w. (Inr ''Weather in Paris: Sunny +20C'', w)),
      write_txt_file = (\<lambda>filename c w. (Inr ''Successfully wrote content to notes.txt'', w)),
      generate_qr_code = (\<lambda>d filename image_path w.
         (Inl (Exn ''FileNotFoundError'' ''dl_logo.jpg''), w))\<rparr>"

text \<open>A \<^verbatim>\<open>json.dumps\<close> and a \<^verbatim>\<open>json.loads\<close> on the few values the scenarios use.\<close>

fun small_dumps :: "pyval \<Rightarrow> exn + string" where
  "small_dumps PNone = Inr ''null''"
| "small_dumps (PBool b) = Inr (if b then ''true'' else ''false'')"
| "small_dumps (PList []) = Inr ''[]''"
| "small_dumps (PDict []) = Inr ''{}''"
| "small_dumps v = Inl (Exn ''TypeError'' ''Object is not JSON serializable'')"

definition small_loads :: "string \<Rightarrow> exn + pyval" where
  "small_loads s =
     (if s = ''{}'' then Inr (PDict [])
      else Inl (Exn ''JSONDecodeError'' ''Expecting value''))"

definition research_fixture :: "(string list, nat) endpoint \<Rightarrow> (string list, nat) research" where
  "research_fixture ep =
     \<lparr>arxiv_search = (\<lambda>kw w. (Inr (PList []), w)),
      tavily_search = (\<lambda>kw w. (Inl (Exn ''ConnectionError'' ''network unreachable''), w)),
      wikipedia_search = (\<lambda>kw w. (Inr (PStr ''A black hole is a region of spacetime.''), w)),
      json_dumps = small_dumps,
      create = ep,
      RESEARCH_TOOLS = [''arxiv_search'', ''tavily_search'', ''wikipedia_search''],
      today = ''2025-01-15''\<rparr>"

definition campaign_fixture :: "(string list, nat) endpoint \<Rightarrow> (string list, nat) campaign" where
  "campaign_fixture ep =
     \<lparr>tavily_search_tool = (\<lambda>kw w. (Inr (PList []), w)),
      SUNGLASSES_CATALOG = [],
      json_loads = small_loads,
      dumps = small_dumps,
      messages_create = ep,
      tools_claude = [''tavily_search_tool'', ''product_catalog_tool'']\<rparr>"


definition asks_arxiv :: response where
  "asks_arxiv = \<lparr>stop_reason = ''tool_use'',
                 content = [TextBlock ''Searching.'',
                            ToolUseBlock ''t1'' ''arxiv_search'' [(''query'', PStr ''black holes'')]]\<rparr>"

definition asks_tavily :: response where
  "asks_tavily = \<lparr>stop_reason = ''tool_use'',
                  content = [ToolUseBlock ''c1'' ''tavily_search_tool''
                               [(''query'', PStr ''sunglasses trends'')]]\<rparr>"

definition asks_qr :: response where
  "asks_qr = \<lparr>stop_reason = ''tool_use'',
              content = [ToolUseBlock ''q1'' ''generate_qr_code''
                           [(''data'', PStr ''www.deeplearning.ai''),
                            (''filename'', PStr ''dl_qr_code''),
                            (''image_path'', PStr ''dl_logo.jpg'')]]\<rparr>"

definition asks_two :: response where
  "asks_two = \<lparr>stop_reason = ''tool_use'',
               content = [ToolUseBlock ''t1'' ''get_current_time'' [],
                          ToolUseBlock ''t2'' ''get_weather_from_ip'' []]\<rparr>"

section \<open>Properties\<close>

subsection \<open>\<^verbatim>\<open>truncate_text\<close>\<close>

lemma slice_to_nonneg: "0 \<le> n \<Longrightarrow> slice_to xs n = take (nat n) xs"
  by (simp add: slice_to_def)

lemma length_slice_to_nonneg: "0 \<le> n \<Longrightarrow> int (length (slice_to xs n)) \<le> n"
  by (simp add: slice_to_def)

text \<open>
  Claim C10, as the code has it. For every text and every \<open>max_length\<close>,
  \<^verbatim>\<open>truncate_text\<close> returns the text unchanged when \<open>len(text) \<le> max_length\<close>. Otherwise,
  when \<open>max_length\<close> is not negative, it returns the first \<open>max_length\<close> characters
  followed by \<^verbatim>\<open>...\<close>, and then the result is no longer than \<open>max_length + 3\<close>. (With a
  negative \<open>max_length\<close> the slice counts from the end: see the counterexample.)
\<close>

theorem truncate_text_spec:
  "(int (length text) \<le> max_length \<longrightarrow> truncate_text text max_length = text) \<and>
   (0 \<le> max_length \<and> max_length < int (length text) \<longrightarrow>
      truncate_text text max_length = take (nat max_length) text @ ''...'') \<and>
   (0 \<le> max_length \<longrightarrow> int (length (truncate_text text max_length)) \<le> max_length + 3)"
proof (intro conjI impI)
  assume "int (length text) \<le> max_length"
  then show "truncate_text text max_length = text"
    by (simp add: truncate_text_def)
next
  assume "0 \<le> max_length \<and> max_length < int (length text)"
  then show "truncate_text text max_length = take (nat max_length) text @ ''...''"
    by (simp add: truncate_text_def slice_to_nonneg)
next
  assume nonneg: "0 \<le> max_length"
  show "int (length (truncate_text text max_length)) \<le> max_length + 3"
  proof (cases "int (length text) \<le> max_length")
    case True
    then show ?thesis by (simp add: truncate_text_def)
  next
    case False
    have "int (length (slice_to text max_length)) \<le> max_length"
      using nonneg by (rule length_slice_to_nonneg)
    with False show ?thesis by (simp add: truncate_text_def)
  qed
qed

theorem truncate_text_spec_witness:
  "truncate_text ''hello'' 5 = ''hello'' \<and>
   truncate_text ''hello world'' 5 = ''hello...'' \<and>
   int (length (truncate_text ''hello world'' 5)) \<le> 5 + 3"
  using truncate_text_spec [of "''hello''" 5] truncate_text_spec [of "''hello world''" 5]
  by simp

text \<open>
  The claim as written fails for a negative \<open>max_length\<close>: \<^verbatim>\<open>truncate_text("hello", -2)\<close>
  is \<^verbatim>\<open>"hel..."\<close>, which is neither the first \<open>-2\<close> characters followed by the dots nor
  within \<open>max_length + 3 = 1\<close> characters.
\<close>

theorem truncate_text_negative_counterexample:
  "truncate_text ''hello'' (- 2) = ''hel...'' \<and>
   \<not> int (length (truncate_text ''hello'' (- 2))) \<le> (- 2) + 3"
  by (simp add: truncate_text_def slice_to_def)

subsection \<open>The loop of \<^verbatim>\<open>call_claude_with_tools\<close>, one iteration at a time\<close>


lemma call_loop_no_block:
  assumes "iteration < max_iterations"
    and "ep tools_list messages w = (Inr response, w1)"
    and "stop_reason response = ''tool_use''"
    and "find is_tool_use (content response) = None"
  shows "call_loop ep impls tools_list max_iterations iteration messages calls w =
         call_loop ep impls tools_list max_iterations (iteration + 1) messages (Suc calls) w1"
  using assms by (subst call_loop.simps) simp


lemma call_loop_final:
  assumes "iteration < max_iterations"
    and "ep tools_list messages w = (Inr response, w1)"
    and "stop_reason response \<noteq> ''tool_use''"
  shows "call_loop ep impls tools_list max_iterations iteration messages calls w =
         (Returned (final_text (content response), messages), Suc calls, w1)"
  using assms by (subst call_loop.simps) simp

lemma market_loop_limit:
  "\<not> iteration < 10 \<Longrightarrow>
   market_loop env return_messages iteration messages calls w =
     (Returned (Content (''['' @ warning_sign @ '' Max iterations reached]'')), calls, w)"
  by (subst market_loop.simps) simp


subsection \<open>A model that always asks for tools\<close>










subsection \<open>A model that answers at once, or asks for no tool\<close>

text \<open>
  Claim C6, as the code has it. When the first response of the model does not ask for a
  tool, \<^verbatim>\<open>call_claude_with_tools\<close> (with a limit of at least 1) returns the text of that
  response and a conversation of one turn, the seeded user turn: the final assistant turn
  is not appended. In scenario A that is the text \<^verbatim>\<open>4\<close> and one turn.
\<close>

theorem direct_completion_spec:
  assumes "0 < max_iterations"
    and "ep tools_list [Message ''user'' (Text prompt)] w = (Inr response, w1)"
    and "stop_reason response \<noteq> ''tool_use''"
  shows "call_claude_with_tools ep impls prompt tools_list max_iterations w =
         (Returned (final_text (content response), [Message ''user'' (Text prompt)]), 1, w1)"
  using call_loop_final
      [where ep = ep and tools_list = tools_list and messages = "[Message ''user'' (Text prompt)]"
         and w = w and impls = impls and calls = 0, OF assms]
  by (simp add: call_claude_with_tools_def)

theorem direct_completion_spec_witness:
  "call_claude_with_tools
     (scripted [\<lparr>stop_reason = ''end_turn'', content = [TextBlock ''4'']\<rparr>])
     fixed_tools ''what is 2+2'' ([] :: string list) 5 0 =
   (Returned (''4'', [Message ''user'' (Text ''what is 2+2'')]), 1, 1)"
proof -
  let ?r = "\<lparr>stop_reason = ''end_turn'', content = [TextBlock ''4'']\<rparr>"
  have h1: "(0::int) < 5" by simp
  have h2: "scripted [?r] ([] :: string list) [Message ''user'' (Text ''what is 2+2'')] 0 =
        (Inr ?r, 1)"
    by (simp add: scripted_def)
  have h3: "stop_reason ?r \<noteq> ''tool_use''" by simp
  show ?thesis
    using direct_completion_spec
        [where ep = "scripted [?r]" and tools_list = "[] :: string list"
           and prompt = "''what is 2+2''" and w = 0 and impls = fixed_tools, OF h1 h2 h3]
    by simp
qed

text \<open>
  The claim as written fails: in scenario A the conversation returned has one turn, not
  two.
\<close>

theorem direct_completion_counterexample:
  "(case fst (call_claude_with_tools
        (scripted [\<lparr>stop_reason = ''end_turn'', content = [TextBlock ''4'']\<rparr>])
        fixed_tools ''what is 2+2'' ([] :: string list) 5 0) of
      Returned (text, conversation) \<Rightarrow> text = ''4'' \<and> length conversation = 1
    | Raised e \<Rightarrow> False) \<and>
   \<not> (case fst (call_claude_with_tools
        (scripted [\<lparr>stop_reason = ''end_turn'', content = [TextBlock ''4'']\<rparr>])
        fixed_tools ''what is 2+2'' ([] :: string list) 5 0) of
      Returned (text, conversation) \<Rightarrow> text = ''4'' \<and> length conversation = 2
    | Raised e \<Rightarrow> False)"
  by (simp add: call_claude_with_tools_def call_loop.simps scripted_def)

text \<open>
  Claim C8. In \<^verbatim>\<open>call_claude_with_tools\<close>, when a response has the stop reason
  \<^verbatim>\<open>tool_use\<close> and no block of type \<^verbatim>\<open>tool_use\<close>, the iteration appends nothing: the run goes
  on as the loop entered at the next iteration with the same messages, so the next call of
  the endpoint and the conversation returned at the end see them unchanged.
\<close>

theorem no_tool_use_block_leaves_messages:
  assumes "iteration < max_iterations"
    and "ep tools_list messages w = (Inr response, w1)"
    and "stop_reason response = ''tool_use''"
    and "\<forall>b \<in> set (content response). \<not> is_tool_use b"
  shows "call_loop ep impls tools_list max_iterations iteration messages calls w =
         call_loop ep impls tools_list max_iterations (iteration + 1) messages (Suc calls) w1"
proof -
  have "find is_tool_use (content response) = None"
    using assms(4) by (simp add: find_None_iff)
  with assms(1-3) show ?thesis by (rule call_loop_no_block)
qed

theorem no_tool_use_block_leaves_messages_witness:
  "call_claude_with_tools
     (scripted [\<lparr>stop_reason = ''tool_use'', content = [TextBlock ''Let me see.'']\<rparr>,
                \<lparr>stop_reason = ''end_turn'', content = [TextBlock ''Done.'']\<rparr>])
     fixed_tools ''hi'' [''get_current_time''] 5 0 =
   call_loop
     (scripted [\<lparr>stop_reason = ''tool_use'', content = [TextBlock ''Let me see.'']\<rparr>,
                \<lparr>stop_reason = ''end_turn'', content = [TextBlock ''Done.'']\<rparr>])
     fixed_tools [''get_current_time''] 5 1 [Message ''user'' (Text ''hi'')] 1 1 \<and>
   call_claude_with_tools
     (scripted [\<lparr>stop_reason = ''tool_use'', content = [TextBlock ''Let me see.'']\<rparr>,
                \<lparr>stop_reason = ''end_turn'', content = [TextBlock ''Done.'']\<rparr>])
     fixed_tools ''hi'' [''get_current_time''] 5 0 =
   (Returned (''Done.'', [Message ''user'' (Text ''hi'')]), 2, 2)"
proof -
  let ?r = "\<lparr>stop_reason = ''tool_use'', content = [TextBlock ''Let me see.'']\<rparr>"
  let ?ep = "scripted [?r, \<lparr>stop_reason = ''end_turn'', content = [TextBlock ''Done.'']\<rparr>]
               :: (string list, nat) endpoint"
  let ?m = "[Message ''user'' (Text ''hi'')]"
  have h1: "(0::int) < 5" by simp
  have h2: "?ep [''get_current_time''] ?m 0 = (Inr ?r, 1)" by (simp add: scripted_def)
  have h3: "stop_reason ?r = ''tool_use''" by simp
  have h4: "\<forall>b \<in> set (content ?r). \<not> is_tool_use b" by simp
  have step: "call_loop ?ep fixed_tools [''get_current_time''] 5 0 ?m 0 0 =
        call_loop ?ep fixed_tools [''get_current_time''] 5 (0 + 1) ?m (Suc 0) 1"
    by (rule no_tool_use_block_leaves_messages
          [where ep = ?ep and tools_list = "[''get_current_time'']" and messages = ?m and w = 0,
           OF h1 h2 h3 h4])
  have rest: "call_loop ?ep fixed_tools [''get_current_time''] 5 1 ?m 1 1 =
        (Returned (''Done.'', ?m), 2, 2)"
    by (simp add: call_loop.simps scripted_def)
  from step rest show ?thesis by (simp add: call_claude_with_tools_def)
qed

subsection \<open>The tool executors\<close>

lemma tool_result_no_is_error: "map_of (tool_result i c) ''is_error'' = None"
  by (simp add: tool_result_def)

lemma serialize_str: "serialize d (PStr s) = Inr s"
  by (simp add: serialize_def)


text \<open>
  Claim C3, as the code has it. For a tool name \<open>n\<close> outside the dispatch chain,
  \<^verbatim>\<open>execute_tool\<close> and \<^verbatim>\<open>process_tool_call\<close> return the text \<^verbatim>\<open>Unknown tool: n\<close>, which
  contains \<open>n\<close>, and \<^verbatim>\<open>handle_tool_call_claude\<close> returns the dict that holds this text under
  \<^verbatim>\<open>error\<close>; none of them raises, and the world is unchanged. The \<^verbatim>\<open>tool_result\<close> built
  from the text has no \<^verbatim>\<open>is_error\<close> entry.
\<close>

theorem unknown_tool_spec:
  "(n \<notin> {''get_current_time'', ''get_weather_from_ip'', ''write_txt_file'', ''generate_qr_code''}
      \<longrightarrow> execute_tool impls n inp w = (Inr (''Unknown tool: '' @ n), w)) \<and>
   (n \<notin> {''arxiv_search'', ''tavily_search'', ''wikipedia_search''}
      \<longrightarrow> process_tool_call env n inp v = (''Unknown tool: '' @ n, v)) \<and>
   (n \<notin> {''tavily_search_tool'', ''product_catalog_tool''}
      \<longrightarrow> handle_tool_call_claude cenv n inp u =
            (Inr (PDict [(''error'', PStr (''Unknown tool: '' @ n))]), u)) \<and>
   sublist n (''Unknown tool: '' @ n) \<and>
   map_of (tool_result i (''Unknown tool: '' @ n)) ''is_error'' = None"
proof -
  have "sublist n (''Unknown tool: '' @ n)" by (rule sublist_append_leftI)
  then show ?thesis
    by (simp add: execute_tool_def process_tool_call_def dispatch_research_def serialize_str
        handle_tool_call_claude_def
        tool_result_no_is_error del: append.simps)
qed

theorem unknown_tool_spec_witness:
  "execute_tool fixed_tools ''bogus'' [] 0 = (Inr ''Unknown tool: bogus'', 0) \<and>
   process_tool_call (research_fixture (always asks_arxiv)) ''bogus'' [] 0 =
     (''Unknown tool: bogus'', 0) \<and>
   handle_tool_call_claude (campaign_fixture (always asks_tavily)) ''bogus'' [] 0 =
     (Inr (PDict [(''error'', PStr ''Unknown tool: bogus'')]), 0) \<and>
   sublist ''bogus'' ''Unknown tool: bogus'' \<and>
   map_of (tool_result ''x1'' ''Unknown tool: bogus'') ''is_error'' = None"
  using unknown_tool_spec
    [where n = "''bogus''" and impls = fixed_tools and inp = "[]" and w = 0
       and env = "research_fixture (always asks_arxiv)" and v = 0 and i = "''x1''"
       and cenv = "campaign_fixture (always asks_tavily)" and u = 0]
  by simp

text \<open>
  The claim as written fails twice: the \<^verbatim>\<open>tool_result\<close> of an unknown tool carries no
  \<^verbatim>\<open>is_error\<close> flag, and \<^verbatim>\<open>handle_tool_call\<close> raises \<^verbatim>\<open>KeyError\<close> on a name that is not in
  its table.
\<close>

theorem unknown_tool_counterexample:
  "map_of (tool_result ''x1'' ''Unknown tool: bogus'') ''is_error'' \<noteq> Some (PBool True) \<and>
   handle_tool_call (campaign_fixture (always asks_tavily))
     \<lparr>function_name = ''bogus'', function_arguments = ''{}''\<rparr> 0 =
     (Inl (Exn ''KeyError'' ([CHR 0x27] @ ''bogus'' @ [CHR 0x27])), 0)"
  by (simp add: tool_result_def handle_tool_call_def campaign_fixture_def small_loads_def
      key_error_def)

text \<open>
  Claim C4, as the code has it. When a tool called by \<^verbatim>\<open>process_tool_call\<close> raises, or
  when the serialisation of its result raises, \<^verbatim>\<open>process_tool_call\<close> returns the text
  \<^verbatim>\<open>Tool error (name): message\<close> with the message of the exception; it returns a string on
  every path, so nothing is raised to \<^verbatim>\<open>find_references\<close>. The \<^verbatim>\<open>tool_result\<close> built from
  the text has no \<^verbatim>\<open>is_error\<close> entry.
\<close>

theorem tool_exception_spec:
  "(dispatch_research env n inp w = (Inl e, w') \<longrightarrow>
      process_tool_call env n inp w = (''Tool error ('' @ n @ ''): '' @ exn_str e, w')) \<and>
   (dispatch_research env n inp w = (Inr result, w') \<and>
    serialize (json_dumps env) result = Inl e \<longrightarrow>
      process_tool_call env n inp w = (''Tool error ('' @ n @ ''): '' @ exn_str e, w')) \<and>
   map_of (tool_result i (''Tool error ('' @ n @ ''): '' @ exn_str e)) ''is_error'' = None"
  by (simp add: process_tool_call_def tool_error_def tool_result_no_is_error)

theorem tool_exception_spec_witness:
  "process_tool_call (research_fixture (always asks_arxiv)) ''tavily_search''
     [(''query'', PStr ''black holes'')] 0 =
     (''Tool error (tavily_search): network unreachable'', 0) \<and>
   process_tool_call
     ((research_fixture (always asks_arxiv))
        \<lparr>arxiv_search := (\<lambda>kw w. (Inr (PFloat ''nan''), w))\<rparr>)
     ''arxiv_search'' [(''query'', PStr ''black holes'')] 0 =
     (''Tool error (arxiv_search): Object is not JSON serializable'', 0)"
  using tool_exception_spec
    [where env = "research_fixture (always asks_arxiv)" and n = "''tavily_search''"
       and inp = "[(''query'', PStr ''black holes'')]" and w = 0 and w' = 0
       and e = "Exn ''ConnectionError'' ''network unreachable''"]
    tool_exception_spec
    [where env = "(research_fixture (always asks_arxiv))
                    \<lparr>arxiv_search := (\<lambda>kw w. (Inr (PFloat ''nan''), w))\<rparr>"
       and n = "''arxiv_search''"
       and inp = "[(''query'', PStr ''black holes'')]" and w = 0 and w' = 0
       and result = "PFloat ''nan''"
       and e = "Exn ''TypeError'' ''Object is not JSON serializable''"]
  by (simp add: dispatch_research_def research_fixture_def serialize_def)

text \<open>
  The claim as written fails: \<^verbatim>\<open>execute_tool\<close> has no handler, so a missing parameter
  (\<^verbatim>\<open>KeyError\<close>) and a failing tool body leave it as exceptions, and the exception leaves
  \<^verbatim>\<open>call_claude_with_tools\<close> too; and where the exception is caught, the \<^verbatim>\<open>tool_result\<close>
  carries no \<^verbatim>\<open>is_error\<close> flag.
\<close>

theorem tool_exception_counterexample:
  "execute_tool fixed_tools ''write_txt_file'' [(''filename'', PStr ''reminders.txt'')] 0 =
     (Inl (Exn ''KeyError'' ([CHR 0x27] @ ''content'' @ [CHR 0x27])), 0) \<and>
   call_claude_with_tools (always asks_qr) fixed_tools ''Can you make a QR code?''
     [''generate_qr_code''] 5 0 =
     (Raised (Exn ''FileNotFoundError'' ''dl_logo.jpg''), 1, 1) \<and>
   map_of (tool_result ''t1'' ''Tool error (tavily_search): network unreachable'') ''is_error'' \<noteq>
     Some (PBool True)"
  by (simp add: execute_tool_def fixed_tools_def subscript_def key_error_def
      call_claude_with_tools_def call_loop.simps always_def asks_qr_def tool_result_def)



subsection \<open>Turn ordering\<close>

lemma result_ids_tool_result [simp]:
  "result_ids (tool_result i c # rs) = Some (PStr i) # result_ids rs"
  by (simp add: result_ids_def tool_result_def)

lemma research_tool_results_ids:
  "research_tool_results env bs w = (rs, w') \<Longrightarrow> result_ids rs = request_ids bs"
proof (induction env bs w arbitrary: rs w' rule: research_tool_results.induct)
  case (1 env w)
  then show ?case by (simp add: result_ids_def request_ids_def)
next
  case (2 env i n inp bs w)
  obtain s w1 where p: "process_tool_call env n inp w = (s, w1)"
    by (cases "process_tool_call env n inp w")
  obtain rs' w2 where r: "research_tool_results env bs w1 = (rs', w2)"
    by (cases "research_tool_results env bs w1")
  from "2.IH" [OF p [symmetric] r] have "result_ids rs' = request_ids bs" .
  moreover from "2.prems" p r have "rs = tool_result i s # rs'" by simp
  ultimately show ?case by (simp add: request_ids_def)
qed (simp_all add: request_ids_def)

lemma campaign_tool_results_ids:
  "campaign_tool_results env bs w = (Inr rs, w') \<Longrightarrow> result_ids rs = request_ids bs"
proof (induction env bs w arbitrary: rs w' rule: campaign_tool_results.induct)
  case (1 env w)
  then show ?case by (simp add: result_ids_def request_ids_def)
next
  case (2 env i n inp bs w)
  from "2.prems" obtain result w1 s rs' w2 where
    h: "handle_tool_call_claude env n inp w = (Inr result, w1)" and
    d: "serialize (dumps env) result = Inr s" and
    r: "campaign_tool_results env bs w1 = (Inr rs', w2)" and
    e: "rs = tool_result i s # rs'"
    by (auto split: prod.splits sum.splits)
  from "2.IH" [OF h [symmetric] refl d r] have "result_ids rs' = request_ids bs" .
  with e show ?case by (simp add: request_ids_def)
qed (simp_all add: request_ids_def)

lemma turn_ordered_append:
  "turn_ordered ms \<Longrightarrow> result_ids rs = request_ids bs \<Longrightarrow>
   turn_ordered (ms @ [Message ''assistant'' (Blocks bs), Message r (Results rs)])"
  by (induction ms rule: turn_ordered.induct) auto


lemma market_loop_ordered:
  "turn_ordered messages \<Longrightarrow>
   market_loop env return_messages iteration messages calls w =
     (Returned (ContentMessages c ms), n, w') \<Longrightarrow>
   turn_ordered ms"
proof (induction env return_messages iteration messages calls w
       rule: market_loop.induct)
  case (1 env return_messages iteration messages calls w)
  show ?case
  proof (cases "iteration < 10")
    case False
    with "1.prems"(2) show ?thesis by (simp add: market_loop_limit)
  next
    case True
    note lt = True
    obtain x w1 where c: "messages_create env (tools_claude env) messages w = (x, w1)"
      by (cases "messages_create env (tools_claude env) messages w")
    show ?thesis
    proof (cases x)
      case (Inl e)
      with "1.prems"(2) lt c show ?thesis by (subst (asm) market_loop.simps) simp
    next
      case (Inr response)
      show ?thesis
      proof (cases "stop_reason response = ''tool_use''")
        case False
        with "1.prems" lt c Inr show ?thesis
          by (subst (asm) market_loop.simps) (simp add: with_messages_def split: if_splits)
      next
        case True
        obtain y w2 where t: "campaign_tool_results env (content response) w1 = (y, w2)"
          by (cases "campaign_tool_results env (content response) w1")
        show ?thesis
        proof (cases y)
          case (Inl e)
          with "1.prems"(2) lt c Inr True t show ?thesis
            by (subst (asm) market_loop.simps) simp
        next
          case (Inr tool_results)
          let ?m2 = "messages @ [Message ''assistant'' (Blocks (content response)),
                                  Message ''user'' (Results tool_results)]"
          have ids: "result_ids tool_results = request_ids (content response)"
            using t Inr by (simp add: campaign_tool_results_ids)
          have ord: "turn_ordered ?m2"
            using "1.prems"(1) ids by (rule turn_ordered_append)
          have run: "market_loop env return_messages (iteration + 1) ?m2 (Suc calls) w2 =
              (Returned (ContentMessages c ms), n, w')"
            using "1.prems"(2) lt c \<open>x = Inr response\<close> True t Inr
            by (subst (asm) market_loop.simps) simp
          show ?thesis
            using "1.IH" [OF lt c [symmetric] \<open>x = Inr response\<close> True t [symmetric] Inr ord run] .
        qed
      qed
    qed
  qed
qed

lemma references_loop_ordered:
  "turn_ordered messages \<Longrightarrow>
   references_loop env response iteration messages calls w = (r, ms, n, w') \<Longrightarrow>
   turn_ordered ms"
proof (induction env response iteration messages calls w rule: references_loop.induct)
  case (1 env response iteration messages calls w)
  show ?case
  proof (cases "stop_reason response = ''tool_use'' \<and> iteration < 5")
    case False
    with "1.prems" show ?thesis by (subst (asm) references_loop.simps) auto
  next
    case True
    obtain trs w1 where t: "research_tool_results env (content response) w = (trs, w1)"
      by (cases "research_tool_results env (content response) w")
    let ?m2 = "messages @ [Message ''assistant'' (Blocks (content response)),
                            Message ''user'' (Results trs)]"
    have ord: "turn_ordered ?m2"
      using "1.prems"(1) research_tool_results_ids [OF t] by (rule turn_ordered_append)
    obtain x w2 where c: "create env (RESEARCH_TOOLS env) ?m2 w1 = (x, w2)"
      by (cases "create env (RESEARCH_TOOLS env) ?m2 w1")
    show ?thesis
    proof (cases x)
      case (Inl e)
      with "1.prems"(2) True t c have "ms = ?m2"
        by (subst (asm) references_loop.simps) simp
      with ord show ?thesis by simp
    next
      case (Inr response2)
      have run: "references_loop env response2 (iteration + 1) ?m2 (Suc calls) w2 =
          (r, ms, n, w')"
        using "1.prems"(2) True t c Inr by (subst (asm) references_loop.simps) simp
      show ?thesis
        using "1.IH" [OF True t [symmetric] refl c [symmetric] Inr ord run] .
    qed
  qed
qed

text \<open>
  In \<^verbatim>\<open>market_research_agent\<close> and \<^verbatim>\<open>find_references\<close> the conversation returned is
  ordered: every tool-result turn follows an assistant turn and answers each of its
  requests, in order.
\<close>

lemma turn_ordering_market_and_references:
  "(market_research_agent cenv prompt return_messages u = (Returned (ContentMessages c ms), n, u')
      \<longrightarrow> turn_ordered ms) \<and>
   (find_references renv task return_messages' v = (ContentMessages c' ms', n', v')
      \<longrightarrow> turn_ordered ms')"
proof (intro conjI impI)
  assume "market_research_agent cenv prompt return_messages u =
    (Returned (ContentMessages c ms), n, u')"
  then have "market_loop cenv return_messages 0 [Message ''user'' (Text prompt)] 0 u =
    (Returned (ContentMessages c ms), n, u')"
    by (simp add: market_research_agent_def)
  moreover have "turn_ordered [Message ''user'' (Text prompt)]" by simp
  ultimately show "turn_ordered ms" by (rule market_loop_ordered [rotated])
next
  assume a: "find_references renv task return_messages' v = (ContentMessages c' ms', n', v')"
  let ?m = "[Message ''user'' (Text (research_prompt task (today renv)))]"
  obtain x v1 where c: "create renv (RESEARCH_TOOLS renv) ?m v = (x, v1)"
    by (cases "create renv (RESEARCH_TOOLS renv) ?m v")
  show "turn_ordered ms'"
  proof (cases x)
    case (Inl e)
    with a c show ?thesis by (simp add: find_references_def)
  next
    case (Inr response)
    obtain y ms2 k v2 where l: "references_loop renv response 0 ?m 1 v1 = (y, ms2, k, v2)"
      by (cases "references_loop renv response 0 ?m 1 v1") auto
    have "turn_ordered ?m" by simp
    then have ord: "turn_ordered ms2" using l by (rule references_loop_ordered)
    from a c Inr l have "ms' = ms2"
      by (cases y) (simp_all add: find_references_def with_messages_def split: if_splits)
    with ord show ?thesis by simp
  qed
qed

text \<open>
  Claim C2 fails in \<^verbatim>\<open>call_claude_with_tools\<close>, which stops at the first block of type
  \<^verbatim>\<open>tool_use\<close>: when a response carries two tool requests, the assistant turn appended has
  both and the tool-result turn answers the first only.
\<close>

theorem call_claude_with_tools_answers_first_request_only:
  "call_claude_with_tools
     (scripted [asks_two, \<lparr>stop_reason = ''end_turn'', content = [TextBlock ''Done.'']\<rparr>])
     fixed_tools ''Time and weather?'' [''get_current_time'', ''get_weather_from_ip''] 5 0 =
   (Returned (''Done.'',
      [Message ''user'' (Text ''Time and weather?''),
       Message ''assistant'' (Blocks [ToolUseBlock ''t1'' ''get_current_time'' [],
                                      ToolUseBlock ''t2'' ''get_weather_from_ip'' []]),
       Message ''user'' (Results [tool_result ''t1'' ''10:00:00''])]), 2, 2) \<and>
   request_ids [ToolUseBlock ''t1'' ''get_current_time'' [],
                ToolUseBlock ''t2'' ''get_weather_from_ip'' []] =
     [Some (PStr ''t1''), Some (PStr ''t2'')] \<and>
   result_ids [tool_result ''t1'' ''10:00:00''] = [Some (PStr ''t1'')] \<and>
   \<not> turn_ordered
      [Message ''user'' (Text ''Time and weather?''),
       Message ''assistant'' (Blocks [ToolUseBlock ''t1'' ''get_current_time'' [],
                                      ToolUseBlock ''t2'' ''get_weather_from_ip'' []]),
       Message ''user'' (Results [tool_result ''t1'' ''10:00:00''])]"
  by (simp add: call_claude_with_tools_def call_loop.simps scripted_def asks_two_def
      execute_tool_def fixed_tools_def request_ids_def result_ids_def tool_result_def)

subsection \<open>\<^verbatim>\<open>evaluate_tavily_results\<close>\<close>






















end
